theory Spec2Isabelle
  imports Main "HOL-Library.Word"
begin

section \<open>Values of the runtime\<close>

text \<open>
  The helpers of \<open>src/index.ts\<close> take arguments of type \<open>any\<close> and branch on what the
  value is at run time (\<open>_.isString\<close>, \<open>_.isNil\<close>, \<open>Buffer.isBuffer\<close>, \<open>_.isFunction\<close>,
  \<open>IsStream.readable\<close>, \<open>_.isObject\<close>, \<open>instanceof Error\<close>, \<open>_.isArray\<close>), so the
  embedding has one type of JavaScript values with a constructor for each case the
  code tells apart.

  Strings are HOL strings, read as sequences of code points below 256.
  Numbers are the integer-valued ones, plus \<open>NaN\<close>.

  What a non-primitive value does when the language or a library asks it for text is
  part of the value: the three fields of a \<open>behaviour\<close> are the outcomes of evaluating
  \<open>'' + val.toString()\<close> (absent when \<open>val['toString']\<close> is not a function),
  \<open>JSON.stringify(val)\<close> (which may return \<open>undefined\<close>) and \<open>'' + val\<close> on it.
  \<open>Inl\<close> is always a thrown value, \<open>Inr\<close> a returned one.
\<close>

type_synonym byte = "8 word"

datatype ('e, 'a) promise = Pending | Rejected 'e | Resolved 'a

datatype 'v behaviour = Behaviour
  (toString_result: "('v + string) option")
  (stringify_result: "'v + string option")
  (concat_result: "'v + string")

text \<open>A chunk of a readable stream (\<open>Buffer | string\<close>) and the events a stream emits.\<close>

datatype chunk = Text string | Bytes "byte list"

datatype 'v event = Data chunk | End | Failure 'v

text \<open>
  A depth argument (\<open>funcDepth\<close>, \<open>maxDepth\<close>): \<open>undefined\<close> when left out, \<open>null\<close> as
  \<open>asBuffer\<close> passes it for \<open>funcDepth\<close>, \<open>NaN\<close>, or a number.
\<close>

datatype numarg = ArgUndefined | ArgNull | ArgNaN | ArgNum int

text \<open>
  A function value is what calling it as \<open>val(enc, funcDepth, maxDepth)\<close> and awaiting
  the result gives: a promise that stays pending, a rejection (or a synchronous throw),
  or a value. A readable stream is the sequence of events it will emit. An \<open>Error\<close>
  carries the outcome of \<open>'' + val.message\<close>.
\<close>

datatype jsval =
    VUndefined
  | VNull
  | VBool bool
  | VNum int
  | VNaN
  | VStr string
  | VSym string
  | VBuffer "byte list"
  | VFunction "string option \<Rightarrow> numarg \<Rightarrow> numarg \<Rightarrow> (jsval, jsval) promise" "jsval behaviour"
  | VReadable "jsval event list" "jsval behaviour"
  | VArray "jsval list" "jsval behaviour"
  | VError "jsval + string" "jsval behaviour"
  | VObject "jsval behaviour"

text \<open>Truthiness, as \<open>if (err)\<close> tests it.\<close>

fun truthy :: "jsval \<Rightarrow> bool" where
  "truthy VUndefined = False"
| "truthy VNull = False"
| "truthy (VBool b) = b"
| "truthy (VNum n) = (n \<noteq> 0)"
| "truthy VNaN = False"
| "truthy (VStr s) = (s \<noteq> [])"
| "truthy _ = True"

text \<open>\<open>_.isNil\<close>: \<open>null\<close> or \<open>undefined\<close>.\<close>

fun isNil :: "jsval \<Rightarrow> bool" where
  "isNil VUndefined = True"
| "isNil VNull = True"
| "isNil _ = False"

text \<open>\<open>_.isFunction\<close>.\<close>

fun isFunction :: "jsval \<Rightarrow> bool" where
  "isFunction (VFunction f bh) = True"
| "isFunction _ = False"

section \<open>createCompletedAction\<close>

text \<open>
  \<open>createCompletedAction(resolve, reject?)\<close> returns a closure over the flag
  \<open>completedInvoked\<close>. The two callbacks are opaque, so the model records each call made
  to one of them, in order. A callback that was not passed (\<open>if (reject)\<close>,
  \<open>if (resolve)\<close>) is not called.
\<close>

datatype 'a callback_call = ResolveCalled 'a | RejectCalled jsval

record 'a completed_state =
  completedInvoked :: bool
  calls :: "'a callback_call list"

definition createCompletedAction :: "'a completed_state" where
  "createCompletedAction = \<lparr>completedInvoked = False, calls = []\<rparr>"

text \<open>One invocation \<open>(err, result)\<close> of the closure returned for \<open>resolve\<close> and \<open>reject\<close>.\<close>

definition completedAction ::
  "bool \<Rightarrow> bool \<Rightarrow> 'a completed_state \<Rightarrow> jsval \<times> 'a \<Rightarrow> 'a completed_state" where
  "completedAction hasResolve hasReject st call =
     (if completedInvoked st then st
      else if truthy (fst call)
        then (if hasReject
              then st\<lparr>completedInvoked := True, calls := calls st @ [RejectCalled (fst call)]\<rparr>
              else st\<lparr>completedInvoked := True\<rparr>)
        else (if hasResolve
              then st\<lparr>completedInvoked := True, calls := calls st @ [ResolveCalled (snd call)]\<rparr>
              else st\<lparr>completedInvoked := True\<rparr>))"

text \<open>A sequence of invocations of one closure, from its creation.\<close>

definition invocations ::
  "bool \<Rightarrow> bool \<Rightarrow> (jsval \<times> 'a) list \<Rightarrow> 'a completed_state" where
  "invocations hasResolve hasReject cs =
     foldl (completedAction hasResolve hasReject) createCompletedAction cs"

section \<open>The platform\<close>

text \<open>
  Two operations of Node's \<open>Buffer\<close> are called by the code and are not part of the
  repository; the model takes them as a parameter. \<open>new_Buffer P str enc\<close> is
  \<open>new Buffer(str, enc)\<close> for a first argument that is a string or \<open>undefined\<close> and an
  encoding that is a string or \<open>undefined\<close>: the bytes, or the error the constructor throws.
  \<open>buffer_toString P bytes\<close> is \<open>buf.toString()\<close>.
\<close>

record platform =
  new_Buffer :: "string option \<Rightarrow> string option \<Rightarrow> jsval + byte list"
  buffer_toString :: "byte list \<Rightarrow> string"

text \<open>
  \<open>new Error(msg)\<close> and its relatives: \<open>message\<close> is the string, \<open>toString()\<close> gives
  the name and the message, and there is no enumerable property for \<open>JSON.stringify\<close>.
\<close>

definition error_text :: "string \<Rightarrow> string \<Rightarrow> string" where
  "error_text name msg = (if msg = [] then name else name @ '': '' @ msg)"

definition new_Error :: "string \<Rightarrow> string \<Rightarrow> jsval" where
  "new_Error name msg =
     VError (Inr msg)
       (Behaviour (Some (Inr (error_text name msg))) (Inr (Some ''{}''))
          (Inr (error_text name msg)))"

section \<open>Numbers and strings as text\<close>

fun show_nat :: "nat \<Rightarrow> string" where
  "show_nat n =
     (if n < 10 then [''0123456789'' ! n]
      else show_nat (n div 10) @ [''0123456789'' ! (n mod 10)])"

declare show_nat.simps [simp del]

definition show_int :: "int \<Rightarrow> string" where
  "show_int i = (if i < 0 then CHR ''-'' # show_nat (nat (- i)) else show_nat (nat i))"

text \<open>\<open>String.prototype.toLowerCase\<close> and \<open>trim\<close>, on code points below 256.\<close>

definition lower_char :: "char \<Rightarrow> char" where
  "lower_char c =
     (if (65 \<le> (of_char c :: nat) \<and> (of_char c :: nat) \<le> 90)
         \<or> (192 \<le> (of_char c :: nat) \<and> (of_char c :: nat) \<le> 222 \<and> (of_char c :: nat) \<noteq> 215)
      then char_of ((of_char c :: nat) + 32) else c)"

definition toLowerCase :: "string \<Rightarrow> string" where
  "toLowerCase s = map lower_char s"

definition is_space :: "char \<Rightarrow> bool" where
  "is_space c = ((of_char c :: nat) \<in> {9, 10, 11, 12, 13, 32, 160})"

definition trim :: "string \<Rightarrow> string" where
  "trim s = rev (dropWhile is_space (rev (dropWhile is_space s)))"

section \<open>toStringSafe and normalizeString\<close>

text \<open>
  The \<open>try\<close> block of \<open>toStringSafe\<close> for a value that is neither a string nor nil:
  \<open>Some r\<close> when one of its three \<open>return\<close>s is reached with \<open>r\<close>, \<open>None\<close> when an
  exception was thrown inside it and swallowed by the empty \<open>catch\<close>. The first
  argument is the outcome of \<open>'' + val.message\<close> when \<open>val instanceof Error\<close>.
\<close>

definition tryConvert :: "(jsval + string) option \<Rightarrow> jsval behaviour \<Rightarrow> string option option" where
  "tryConvert message bh =
     (case message of
        Some (Inr s) \<Rightarrow> Some (Some s)
      | Some (Inl e) \<Rightarrow> None
      | None \<Rightarrow>
          (case toString_result bh of
             Some (Inr s) \<Rightarrow> Some (Some s)
           | Some (Inl e) \<Rightarrow> None
           | None \<Rightarrow>
               (case stringify_result bh of
                  Inr r \<Rightarrow> Some r
                | Inl e \<Rightarrow> None)))"

text \<open>
  For an object: the \<open>try\<close> block, and after a swallowed exception the last line,
  \<open>return '' + val\<close>, which is outside the \<open>try\<close>.
\<close>

definition convertObject :: "(jsval + string) option \<Rightarrow> jsval behaviour \<Rightarrow> jsval + string option" where
  "convertObject message bh =
     (case tryConvert message bh of
        Some r \<Rightarrow> Inr r
      | None \<Rightarrow>
          (case concat_result bh of
             Inl e \<Rightarrow> Inl e
           | Inr s \<Rightarrow> Inr (Some s)))"

text \<open>
  \<open>toStringSafe(val, defaultVal = '')\<close>. The result is \<open>Inl e\<close> when the call throws
  \<open>e\<close>, \<open>Inr (Some s)\<close> when it returns the string \<open>s\<close> and \<open>Inr None\<close> when it returns
  \<open>undefined\<close>. Booleans, numbers, symbols and buffers have a \<open>toString\<close> function, which
  the second \<open>if\<close> of the \<open>try\<close> block calls.
\<close>

fun toStringSafe :: "platform \<Rightarrow> jsval \<Rightarrow> string \<Rightarrow> jsval + string option" where
  "toStringSafe P (VStr s) defaultVal = Inr (Some s)"
| "toStringSafe P VUndefined defaultVal = Inr (Some defaultVal)"
| "toStringSafe P VNull defaultVal = Inr (Some defaultVal)"
| "toStringSafe P (VBool b) defaultVal = Inr (Some (if b then ''true'' else ''false''))"
| "toStringSafe P (VNum n) defaultVal = Inr (Some (show_int n))"
| "toStringSafe P VNaN defaultVal = Inr (Some ''NaN'')"
| "toStringSafe P (VSym d) defaultVal = Inr (Some (''Symbol('' @ d @ '')''))"
| "toStringSafe P (VBuffer bs) defaultVal = Inr (Some (buffer_toString P bs))"
| "toStringSafe P (VError m bh) defaultVal = convertObject (Some m) bh"
| "toStringSafe P (VFunction f bh) defaultVal = convertObject None bh"
| "toStringSafe P (VReadable evs bh) defaultVal = convertObject None bh"
| "toStringSafe P (VArray xs bh) defaultVal = convertObject None bh"
| "toStringSafe P (VObject bh) defaultVal = convertObject None bh"

text \<open>
  \<open>normalizeString(val)\<close> with the default normalizer
  \<open>(str) => str.toLowerCase().trim()\<close>; no caller in the modelled code passes another
  one. When \<open>toStringSafe\<close> returned \<open>undefined\<close>, \<open>str.toLowerCase\<close> throws a \<open>TypeError\<close>.
\<close>

definition normalizeString :: "platform \<Rightarrow> jsval \<Rightarrow> jsval + string" where
  "normalizeString P val =
     (case toStringSafe P val [] of
        Inl e \<Rightarrow> Inl e
      | Inr None \<Rightarrow>
          Inl (new_Error ''TypeError'' ''Cannot read property 'toLowerCase' of undefined'')
      | Inr (Some s) \<Rightarrow> Inr (trim (toLowerCase s)))"

text \<open>An optional string argument (\<open>enc?: string\<close>) as a value.\<close>

definition optional_string :: "string option \<Rightarrow> jsval" where
  "optional_string enc = (case enc of None \<Rightarrow> VUndefined | Some s \<Rightarrow> VStr s)"

text \<open>\<open>if ('' === enc) { enc = undefined; }\<close>\<close>

definition blank_to_undefined :: "string \<Rightarrow> string option" where
  "blank_to_undefined s = (if s = [] then None else Some s)"

section \<open>readAll\<close>

text \<open>
  The promise executor of \<open>readAll\<close> owns \<open>buff\<close> and the flag \<open>completedInvoked\<close>, and
  calls \<open>resolve\<close> and \<open>reject\<close>. The state extends the one of a completed action with
  the buffer, the listeners of this call that are attached to the stream at the moment,
  and the log of the calls of \<open>tryRemoveListener\<close>.
\<close>

datatype listener = DataListener | EndListener | ErrorListener

record readAll_state = "jsval completed_state" +
  buff :: jsval
  attached :: "listener list"
  removals :: "listener list"

text \<open>
  Modelled from the spec: \<open>tryRemoveListener\<close> of \<open>./events\<close>, which is not among the
  sources. The spec says of it that listener removal never raises and that
  deregistration is attempted per listener: the call takes the listener off the stream
  and returns.
\<close>

definition tryRemoveListener :: "listener \<Rightarrow> readAll_state \<Rightarrow> readAll_state" where
  "tryRemoveListener l st =
     st\<lparr>attached := removeAll l (attached st), removals := removals st @ [l]\<rparr>"

text \<open>The closure \<open>COMPLETED\<close> of \<open>readAll\<close>.\<close>

definition readAll_COMPLETED :: "jsval \<Rightarrow> readAll_state \<Rightarrow> readAll_state" where
  "readAll_COMPLETED err st =
     (if completedInvoked st then st
      else
        (if truthy err
         then (\<lambda>s. s\<lparr>calls := calls s @ [RejectCalled err]\<rparr>)
         else (\<lambda>s. s\<lparr>calls := calls s @ [ResolveCalled (buff s)]\<rparr>))
          (tryRemoveListener ErrorListener
            (tryRemoveListener EndListener
              (tryRemoveListener DataListener
                (st\<lparr>completedInvoked := True\<rparr>)))))"

text \<open>
  \<open>Buffer.concat([ buff, chunk ])\<close> for a chunk that is a buffer by now. \<open>buff\<close> is a
  buffer whenever the data listener runs, since it is allocated before the listener is
  attached; the other case is the \<open>TypeError\<close> of \<open>Buffer.concat\<close>.
\<close>

definition Buffer_concat :: "jsval \<Rightarrow> byte list \<Rightarrow> jsval + jsval" where
  "Buffer_concat b chunk =
     (case b of
        VBuffer bs \<Rightarrow> Inr (VBuffer (bs @ chunk))
      | _ \<Rightarrow> Inl (new_Error ''TypeError'' ''\"list\" argument must be an Array of Buffers''))"

definition appendChunk :: "byte list \<Rightarrow> readAll_state \<Rightarrow> readAll_state" where
  "appendChunk chunk st =
     (case Buffer_concat (buff st) chunk of
        Inl e \<Rightarrow> readAll_COMPLETED e st
      | Inr b \<Rightarrow> st\<lparr>buff := b\<rparr>)"

text \<open>The three listeners; \<open>enc\<close> is the encoding after the first lines of \<open>readAll\<close>.\<close>

definition errorListener :: "jsval \<Rightarrow> readAll_state \<Rightarrow> readAll_state" where
  "errorListener err st = (if truthy err then readAll_COMPLETED err st else st)"

fun dataListener :: "platform \<Rightarrow> string option \<Rightarrow> chunk \<Rightarrow> readAll_state \<Rightarrow> readAll_state" where
  "dataListener P enc (Text s) st =
     (if s = [] \<or> length s < 1 then st
      else (case new_Buffer P (Some s) enc of
              Inl e \<Rightarrow> readAll_COMPLETED e st
            | Inr bs \<Rightarrow> appendChunk bs st))"
| "dataListener P enc (Bytes bs) st =
     (if length bs < 1 then st else appendChunk bs st)"

definition endListener :: "readAll_state \<Rightarrow> readAll_state" where
  "endListener st = readAll_COMPLETED VNull st"

text \<open>
  The stream delivers an event to the listeners attached for it. The \<open>end\<close> listener was
  attached with \<open>once\<close>: the emitter takes it off before calling it.
\<close>

fun emit :: "platform \<Rightarrow> string option \<Rightarrow> readAll_state \<Rightarrow> jsval event \<Rightarrow> readAll_state" where
  "emit P enc st (Failure err) =
     (if ErrorListener \<in> set (attached st) then errorListener err st else st)"
| "emit P enc st End =
     (if EndListener \<in> set (attached st)
      then endListener (st\<lparr>attached := removeAll EndListener (attached st)\<rparr>)
      else st)"
| "emit P enc st (Data c) =
     (if DataListener \<in> set (attached st) then dataListener P enc c st else st)"

text \<open>The state when the executor starts, and after its \<open>try\<close> block has attached the listeners.\<close>

definition readAll_start :: "readAll_state" where
  "readAll_start =
     \<lparr>completedInvoked = False, calls = [], buff = VUndefined, attached = [], removals = []\<rparr>"

definition readAll_listening :: "readAll_state" where
  "readAll_listening =
     readAll_start\<lparr>buff := VBuffer [], attached := [ErrorListener, EndListener, DataListener]\<rparr>"

text \<open>
  The executor of \<open>readAll\<close>, run to the end of the events of the stream. A nil
  stream completes at once with that value; a value that is not a stream has no
  \<open>on\<close> to call, the \<open>TypeError\<close> of which the \<open>catch\<close> passes to \<open>COMPLETED\<close>.
\<close>

fun readAll_run :: "platform \<Rightarrow> jsval \<Rightarrow> string option \<Rightarrow> readAll_state" where
  "readAll_run P VUndefined enc = readAll_COMPLETED VNull (readAll_start\<lparr>buff := VUndefined\<rparr>)"
| "readAll_run P VNull enc = readAll_COMPLETED VNull (readAll_start\<lparr>buff := VNull\<rparr>)"
| "readAll_run P (VReadable evs bh) enc = foldl (emit P enc) readAll_listening evs"
| "readAll_run P other enc =
     readAll_COMPLETED (new_Error ''TypeError'' ''stream.on is not a function'') readAll_start"

text \<open>The promise, settled by the first call of \<open>resolve\<close> or \<open>reject\<close>.\<close>

fun settled :: "'a callback_call list \<Rightarrow> (jsval, 'a) promise" where
  "settled [] = Pending"
| "settled (ResolveCalled v # cs) = Resolved v"
| "settled (RejectCalled e # cs) = Rejected e"

text \<open>
  \<open>readAll(stream, enc)\<close>: the encoding is normalised first, outside the promise, then
  the executor runs.
\<close>

definition readAll :: "platform \<Rightarrow> jsval \<Rightarrow> string option \<Rightarrow> jsval + readAll_state" where
  "readAll P stream enc =
     (case normalizeString P (optional_string enc) of
        Inl e \<Rightarrow> Inl e
      | Inr s \<Rightarrow> Inr (readAll_run P stream (blank_to_undefined s)))"

text \<open>The promise \<open>readAll\<close> returns, as \<open>await\<close> sees it.\<close>

definition readAll_promise :: "platform \<Rightarrow> jsval \<Rightarrow> string option \<Rightarrow> (jsval, jsval) promise" where
  "readAll_promise P stream enc =
     (case readAll P stream enc of
        Inl e \<Rightarrow> Rejected e
      | Inr st \<Rightarrow> settled (calls st))"

section \<open>asBuffer\<close>

text \<open>\<open>isNaN\<close> on a depth argument, its numeric value, and the comparisons made on it.\<close>

fun isNaN :: "numarg \<Rightarrow> bool" where
  "isNaN ArgUndefined = True"
| "isNaN ArgNaN = True"
| "isNaN ArgNull = False"
| "isNaN (ArgNum n) = False"

fun toNumber :: "numarg \<Rightarrow> int option" where
  "toNumber ArgUndefined = None"
| "toNumber ArgNaN = None"
| "toNumber ArgNull = Some 0"
| "toNumber (ArgNum n) = Some n"

definition greater_than :: "numarg \<Rightarrow> numarg \<Rightarrow> bool" where
  "greater_than a b =
     (case (toNumber a, toNumber b) of
        (Some x, Some y) \<Rightarrow> x > y
      | _ \<Rightarrow> False)"

definition plus_one :: "numarg \<Rightarrow> numarg" where
  "plus_one a = (case toNumber a of Some x \<Rightarrow> ArgNum (x + 1) | None \<Rightarrow> ArgNaN)"

fun show_numarg :: "numarg \<Rightarrow> string" where
  "show_numarg ArgUndefined = ''undefined''"
| "show_numarg ArgNaN = ''NaN''"
| "show_numarg ArgNull = ''null''"
| "show_numarg (ArgNum n) = show_int n"

text \<open>\<open>if (isNaN(funcDepth)) { funcDepth = 0; }\<close> and the same for \<open>maxDepth\<close> with 63.\<close>

definition orDefault :: "int \<Rightarrow> numarg \<Rightarrow> numarg" where
  "orDefault d a = (if isNaN a then ArgNum d else a)"

text \<open>\<open>new Buffer(str, enc)\<close> as the value an \<open>async\<close> function returns or throws.\<close>

definition bufferOf :: "platform \<Rightarrow> string option \<Rightarrow> string option \<Rightarrow> (jsval, jsval) promise" where
  "bufferOf P str enc =
     (case new_Buffer P str enc of
        Inl e \<Rightarrow> Rejected e
      | Inr bs \<Rightarrow> Resolved (VBuffer bs))"

text \<open>
  The part of \<open>asBufferInner\<close> after the depth check, for a value that is not a
  function: buffer or nil, readable stream (\<open>readAll(val)\<close>, called without the
  encoding), object (\<open>_.isObject\<close>: arrays and errors are objects), anything else.
  \<open>asBufferInner\<close> never passes a function on to it.
\<close>

fun asBufferValue :: "platform \<Rightarrow> jsval \<Rightarrow> string option \<Rightarrow> (jsval, jsval) promise" where
  "asBufferValue P (VBuffer bs) enc = Resolved (VBuffer bs)"
| "asBufferValue P VUndefined enc = Resolved VUndefined"
| "asBufferValue P VNull enc = Resolved VNull"
| "asBufferValue P (VReadable evs bh) enc = readAll_promise P (VReadable evs bh) None"
| "asBufferValue P (VArray xs bh) enc =
     (case stringify_result bh of
        Inl e \<Rightarrow> Rejected e
      | Inr str \<Rightarrow> bufferOf P str enc)"
| "asBufferValue P (VError m bh) enc =
     (case stringify_result bh of
        Inl e \<Rightarrow> Rejected e
      | Inr str \<Rightarrow> bufferOf P str enc)"
| "asBufferValue P (VObject bh) enc =
     (case stringify_result bh of
        Inl e \<Rightarrow> Rejected e
      | Inr str \<Rightarrow> bufferOf P str enc)"
| "asBufferValue P val enc =
     (case toStringSafe P val [] of
        Inl e \<Rightarrow> Rejected e
      | Inr str \<Rightarrow> bufferOf P str enc)"

text \<open>
  \<open>asBufferInner(val, enc, funcDepth, maxDepth)\<close>. A wrapped value is called with the
  normalised encoding and the two depths, awaited, and converted at the next depth. The
  recursion ends because the depth grows and the check stops it above \<open>maxDepth\<close>.
\<close>

definition number_or_zero :: "numarg \<Rightarrow> int" where
  "number_or_zero a = (case toNumber a of None \<Rightarrow> 0 | Some x \<Rightarrow> x)"

definition depth_left :: "platform \<times> jsval \<times> string option \<times> numarg \<times> numarg \<Rightarrow> nat" where
  "depth_left = (\<lambda>(P, val, enc, funcDepth, maxDepth).
     nat (number_or_zero (orDefault 63 maxDepth) + 1 - number_or_zero (orDefault 0 funcDepth)))"

lemma depth_grows:
  "\<not> greater_than (orDefault 0 funcDepth) (orDefault 63 maxDepth) \<Longrightarrow>
   ((P, v, e, plus_one (orDefault 0 funcDepth), orDefault 63 maxDepth),
    (P, val, enc, funcDepth, maxDepth)) \<in> measure depth_left"
  by (cases funcDepth; cases maxDepth)
     (simp_all add: depth_left_def number_or_zero_def greater_than_def orDefault_def plus_one_def)

function asBufferInner ::
  "platform \<Rightarrow> jsval \<Rightarrow> string option \<Rightarrow> numarg \<Rightarrow> numarg \<Rightarrow> (jsval, jsval) promise" where
  "asBufferInner P val enc funcDepth maxDepth =
     (case normalizeString P (optional_string enc) of
        Inl e \<Rightarrow> Rejected e
      | Inr s \<Rightarrow>
          (if greater_than (orDefault 0 funcDepth) (orDefault 63 maxDepth)
           then Rejected (new_Error ''Error''
                  (''Maximum depth of '' @ show_numarg (orDefault 63 maxDepth) @ '' reached!''))
           else
             (case val of
                VFunction f bh \<Rightarrow>
                  (case f (blank_to_undefined s) (orDefault 0 funcDepth) (orDefault 63 maxDepth) of
                     Pending \<Rightarrow> Pending
                   | Rejected e \<Rightarrow> Rejected e
                   | Resolved v \<Rightarrow>
                       asBufferInner P v (blank_to_undefined s)
                         (plus_one (orDefault 0 funcDepth)) (orDefault 63 maxDepth))
              | _ \<Rightarrow> asBufferValue P val (blank_to_undefined s))))"
  by pat_completeness auto
termination
  by (relation "measure depth_left") (simp, erule depth_grows)

declare asBufferInner.simps [simp del]

text \<open>\<open>asBuffer(val, enc, maxDepth)\<close> passes \<open>null\<close> for \<open>funcDepth\<close>.\<close>

definition asBuffer ::
  "platform \<Rightarrow> jsval \<Rightarrow> string option \<Rightarrow> numarg \<Rightarrow> (jsval, jsval) promise" where
  "asBuffer P val enc maxDepth = asBufferInner P val enc ArgNull maxDepth"

section \<open>execFile\<close>

text \<open>\<open>toBooleanSafe(val, defaultVal)\<close> and \<open>asArray(val, removeEmpty = true)\<close>.\<close>

fun toBooleanSafe :: "jsval \<Rightarrow> bool \<Rightarrow> bool" where
  "toBooleanSafe (VBool b) defaultVal = b"
| "toBooleanSafe VUndefined defaultVal = defaultVal"
| "toBooleanSafe VNull defaultVal = defaultVal"
| "toBooleanSafe val defaultVal = truthy val"

text \<open>
  The array itself, or the one-element array of a value that is not an array; the
  filter keeps everything unless \<open>removeEmpty\<close> holds. An argument left out is
  \<open>VUndefined\<close>, for which the default \<open>true\<close> applies.
\<close>

definition asArray :: "jsval \<Rightarrow> jsval \<Rightarrow> jsval list" where
  "asArray val removeEmpty =
     filter (\<lambda>i. if toBooleanSafe removeEmpty True then \<not> isNil i else True)
       (case val of VArray xs bh \<Rightarrow> xs | _ \<Rightarrow> [val])"

text \<open>\<open>xs.map(a => toStringSafe(a))\<close>: the first call that throws ends the \<open>map\<close>.\<close>

fun mapToStringSafe :: "platform \<Rightarrow> jsval list \<Rightarrow> jsval + string option list" where
  "mapToStringSafe P [] = Inr []"
| "mapToStringSafe P (a # as) =
     (case toStringSafe P a [] of
        Inl e \<Rightarrow> Inl e
      | Inr s \<Rightarrow>
          (case mapToStringSafe P as of
             Inl e \<Rightarrow> Inl e
           | Inr ss \<Rightarrow> Inr (s # ss)))"

text \<open>
  Option objects live in a store, since \<open>execFile\<close> assigns to a field of the object the
  caller passed: a reference is a number, an object the map of its fields. \<open>{}\<close>
  allocates a new object at \<open>fresh\<close>.
\<close>

type_synonym fields = "string \<Rightarrow> jsval option"

record store =
  cells :: "nat \<Rightarrow> fields option"
  fresh :: nat

definition fields_of :: "store \<Rightarrow> nat \<Rightarrow> fields" where
  "fields_of \<sigma> r = (case cells \<sigma> r of None \<Rightarrow> Map.empty | Some f \<Rightarrow> f)"

definition get_field :: "store \<Rightarrow> nat \<Rightarrow> string \<Rightarrow> jsval" where
  "get_field \<sigma> r name = (case fields_of \<sigma> r name of None \<Rightarrow> VUndefined | Some v \<Rightarrow> v)"

definition set_field :: "store \<Rightarrow> nat \<Rightarrow> string \<Rightarrow> jsval \<Rightarrow> store" where
  "set_field \<sigma> r name v = \<sigma>\<lparr>cells := (cells \<sigma>)(r \<mapsto> (fields_of \<sigma> r)(name \<mapsto> v))\<rparr>"

definition new_object :: "store \<Rightarrow> store \<times> nat" where
  "new_object \<sigma> = (\<sigma>\<lparr>cells := (cells \<sigma>)(fresh \<sigma> \<mapsto> Map.empty), fresh := Suc (fresh \<sigma>)\<rparr>, fresh \<sigma>)"

text \<open>
  \<open>ChildProcess.execFile(command, args, opts, callback)\<close> is Node's and a parameter of
  the model: from the command, the arguments and the fields of the options it throws,
  or returns the process handle and never calls back, or returns the handle and later
  calls back with \<open>(err, stdout, stderr)\<close>.
\<close>

datatype spawned =
    SpawnThrows jsval
  | NoCallback jsval
  | Callback jsval jsval jsval jsval

type_synonym child_process = "string option \<Rightarrow> string option list \<Rightarrow> fields \<Rightarrow> spawned"

record ExecFileResult =
  stdErr :: jsval
  stdOut :: jsval
  process :: jsval

text \<open>The closure \<open>COMPLETED\<close> of \<open>execFile\<close>, over the flag and the object \<open>RESULT\<close>.\<close>

definition execFile_COMPLETED ::
  "jsval \<Rightarrow> ExecFileResult \<Rightarrow> ExecFileResult completed_state \<Rightarrow> ExecFileResult completed_state" where
  "execFile_COMPLETED err RESULT st =
     (if completedInvoked st then st
      else if truthy err
        then st\<lparr>completedInvoked := True, calls := calls st @ [RejectCalled err]\<rparr>
        else st\<lparr>completedInvoked := True, calls := calls st @ [ResolveCalled RESULT]\<rparr>)"

text \<open>
  The executor of the promise of \<open>execFile\<close>, given what the child process does.
  \<open>RESULT\<close> starts with three \<open>undefined\<close> fields. After a callback without an error
  the handle is stored, then the two outputs are converted one after the other,
  \<open>stderr\<close> first, and the first conversion that fails ends the sequence.
\<close>

definition execFile_RESULT :: "ExecFileResult" where
  "execFile_RESULT = \<lparr>stdErr = VUndefined, stdOut = VUndefined, process = VUndefined\<rparr>"

fun execFile_run :: "platform \<Rightarrow> spawned \<Rightarrow> ExecFileResult completed_state" where
  "execFile_run P (SpawnThrows e) = execFile_COMPLETED e execFile_RESULT createCompletedAction"
| "execFile_run P (NoCallback handle) = createCompletedAction"
| "execFile_run P (Callback handle err stdout stderr) =
     (if truthy err then execFile_COMPLETED err execFile_RESULT createCompletedAction
      else
        (case asBuffer P stderr (Some ''utf8'') ArgUndefined of
           Pending \<Rightarrow> createCompletedAction
         | Rejected e \<Rightarrow>
             execFile_COMPLETED e (execFile_RESULT\<lparr>process := handle\<rparr>) createCompletedAction
         | Resolved errBuf \<Rightarrow>
             (case asBuffer P stdout (Some ''utf8'') ArgUndefined of
                Pending \<Rightarrow> createCompletedAction
              | Rejected e \<Rightarrow>
                  execFile_COMPLETED e (execFile_RESULT\<lparr>process := handle, stdErr := errBuf\<rparr>)
                    createCompletedAction
              | Resolved outBuf \<Rightarrow>
                  execFile_COMPLETED VNull
                    (execFile_RESULT\<lparr>process := handle, stdErr := errBuf, stdOut := outBuf\<rparr>)
                    createCompletedAction)))"

text \<open>
  What a call of \<open>execFile\<close> leaves: the store, what was passed to
  \<open>ChildProcess.execFile\<close> (command, arguments, reference of the options object) if the
  call got that far, and the promise.
\<close>

record execFile_outcome =
  store_after :: store
  launched :: "(string option \<times> string option list \<times> nat) option"
  returned :: "(jsval, ExecFileResult) promise"

text \<open>\<open>if (!opts) { opts = {}; }\<close> and \<open>if (_.isNil(opts.env)) { opts.env = process.env; }\<close>\<close>

definition optsOrNew :: "store \<Rightarrow> nat option \<Rightarrow> store \<times> nat" where
  "optsOrNew \<sigma> opts = (case opts of None \<Rightarrow> new_object \<sigma> | Some r \<Rightarrow> (\<sigma>, r))"

definition defaultEnv :: "jsval \<Rightarrow> store \<times> nat \<Rightarrow> store \<times> nat" where
  "defaultEnv process_env sr =
     (if isNil (get_field (fst sr) (snd sr) ''env'')
      then (set_field (fst sr) (snd sr) ''env'' process_env, snd sr)
      else sr)"

text \<open>
  \<open>execFile(command, args, opts)\<close>, with the child process, the value of \<open>process.env\<close>
  and the store as further arguments. A coercion that throws rejects the promise of the
  \<open>async\<close> function before anything else is done.
\<close>

definition execFile ::
  "platform \<Rightarrow> child_process \<Rightarrow> jsval \<Rightarrow> store \<Rightarrow> jsval \<Rightarrow> jsval \<Rightarrow> nat option \<Rightarrow> execFile_outcome" where
  "execFile P childProcess process_env \<sigma> command args opts =
     (case toStringSafe P command [] of
        Inl e \<Rightarrow> \<lparr>store_after = \<sigma>, launched = None, returned = Rejected e\<rparr>
      | Inr cmd \<Rightarrow>
          (case mapToStringSafe P (asArray args (VBool False)) of
             Inl e \<Rightarrow> \<lparr>store_after = \<sigma>, launched = None, returned = Rejected e\<rparr>
           | Inr as \<Rightarrow>
               (case defaultEnv process_env (optsOrNew \<sigma> opts) of
                  (\<sigma>', r) \<Rightarrow>
                    \<lparr>store_after = \<sigma>',
                     launched = Some (cmd, as, r),
                     returned = settled (calls (execFile_run P (childProcess cmd as (fields_of \<sigma>' r))))\<rparr>)))"

section \<open>Inputs for the properties\<close>

text \<open>
  A chain of \<open>n\<close> deferred values that ends in the buffer \<open>b\<close>: the buffer itself for
  \<open>n = 0\<close>, and a function that, whatever it is called with, gives a chain of \<open>n\<close>
  for \<open>n + 1\<close>.
\<close>

inductive deferred_chain :: "nat \<Rightarrow> byte list \<Rightarrow> jsval \<Rightarrow> bool" where
  chain_end: "deferred_chain 0 b (VBuffer b)"
| chain_link: "(\<And>enc fd md. deferred_chain n b (inner enc fd md)) \<Longrightarrow>
     deferred_chain (Suc n) b (VFunction (\<lambda>enc fd md. Resolved (inner enc fd md)) bh)"

text \<open>
  The encoding the conversions work with, from the argument \<open>enc\<close>: what the lines
  \<open>enc = normalizeString(enc); if ('' === enc) { enc = undefined; }\<close> leave.
\<close>

definition effective_encoding :: "string option \<Rightarrow> string option" where
  "effective_encoding enc =
     blank_to_undefined (trim (toLowerCase (case enc of None \<Rightarrow> [] | Some s \<Rightarrow> s)))"

text \<open>
  The objects that reach \<open>_.isObject\<close> in \<open>asBufferInner\<close>, with their behaviour: the
  ones that are not a buffer, a function or a readable stream. The values that are not
  objects and not nil.
\<close>

fun json_object :: "jsval \<Rightarrow> jsval behaviour option" where
  "json_object (VArray xs bh) = Some bh"
| "json_object (VError m bh) = Some bh"
| "json_object (VObject bh) = Some bh"
| "json_object _ = None"

fun is_primitive :: "jsval \<Rightarrow> bool" where
  "is_primitive (VBool b) = True"
| "is_primitive (VNum n) = True"
| "is_primitive VNaN = True"
| "is_primitive (VStr s) = True"
| "is_primitive (VSym d) = True"
| "is_primitive _ = False"

text \<open>
  What ordinary objects do when asked for text: a function gives its source and has no
  JSON text, an array its elements joined by commas, a plain object \<open>[object Object]\<close>.
\<close>

definition function_behaviour :: "string \<Rightarrow> jsval behaviour" where
  "function_behaviour source = Behaviour (Some (Inr source)) (Inr None) (Inr source)"

definition array_behaviour :: "string \<Rightarrow> string \<Rightarrow> jsval behaviour" where
  "array_behaviour joined json = Behaviour (Some (Inr joined)) (Inr (Some json)) (Inr joined)"

definition plain_behaviour :: "string \<Rightarrow> jsval behaviour" where
  "plain_behaviour json =
     Behaviour (Some (Inr ''[object Object]'')) (Inr (Some json)) (Inr ''[object Object]'')"

text \<open>
  A platform to evaluate the model on concrete inputs. Its constructor knows UTF-8
  only, under the names Node accepts for it, and refuses a first argument that is
  \<open>undefined\<close>; its \<open>toString\<close> reads every byte as one code point, as UTF-8 does below 128.
\<close>

definition utf8_bytes :: "string \<Rightarrow> byte list" where
  "utf8_bytes s =
     concat (map (\<lambda>c. if (of_char c :: nat) < 128 then [of_char c]
                       else [of_nat (192 + (of_char c :: nat) div 64),
                             of_nat (128 + (of_char c :: nat) mod 64)]) s)"

definition utf8_platform :: platform where
  "utf8_platform =
     \<lparr>new_Buffer = (\<lambda>str enc.
        case str of
          None \<Rightarrow> Inl (new_Error ''TypeError'' ''First argument must be a string or a buffer'')
        | Some s \<Rightarrow>
            (case enc of
               None \<Rightarrow> Inr (utf8_bytes s)
             | Some e \<Rightarrow>
                 if toLowerCase e = ''utf8'' \<or> toLowerCase e = ''utf-8'' then Inr (utf8_bytes s)
                 else Inl (new_Error ''TypeError'' (''Unknown encoding: '' @ e)))),
      buffer_toString = map (\<lambda>b. char_of (unat b))\<rparr>"

text \<open>The bytes a chunk adds to the buffer when the constructor accepts its text.\<close>

definition chunk_bytes :: "platform \<Rightarrow> string option \<Rightarrow> chunk \<Rightarrow> byte list" where
  "chunk_bytes P enc c =
     (case c of
        Bytes bs \<Rightarrow> bs
      | Text s \<Rightarrow>
          (if s = [] then []
           else (case new_Buffer P (Some s) enc of Inr bs \<Rightarrow> bs | Inl e \<Rightarrow> [])))"

text \<open>The constructor accepts the text of a chunk that reaches it.\<close>

definition encodable :: "platform \<Rightarrow> string option \<Rightarrow> chunk \<Rightarrow> bool" where
  "encodable P enc c =
     (case c of
        Bytes bs \<Rightarrow> True
      | Text s \<Rightarrow> s = [] \<or> (case new_Buffer P (Some s) enc of Inr bs \<Rightarrow> True | Inl e \<Rightarrow> False))"

section \<open>Properties of createCompletedAction\<close>

lemma completedAction_inert:
  "completedInvoked st \<Longrightarrow> foldl (completedAction hr hj) st cs = st"
  by (induction cs) (simp_all add: completedAction_def)

lemma completedAction_sets_flag:
  "completedInvoked (completedAction hr hj st c)"
  by (simp add: completedAction_def)

lemma invocations_Cons:
  "invocations hr hj (c # cs) = completedAction hr hj createCompletedAction c"
  by (simp add: invocations_def completedAction_inert completedAction_sets_flag)

text \<open>
  C1. Whatever the sequence of invocations of the closure, only the first one reaches a
  callback: with a truthy error it calls the failure callback (when one was passed) once
  with that error, without one it calls the success callback once with the result; an
  invocation after the first calls neither callback, whatever its arguments; so over the
  whole sequence at most one callback is called, at most once.
\<close>

theorem completed_action_fires_once:
  "calls (invocations hasResolve hasReject ((err, result) # rest)) =
     (if truthy err then (if hasReject then [RejectCalled err] else [])
      else (if hasResolve then [ResolveCalled result] else []))
   \<and> calls (invocations hasResolve hasReject ((c # cs) @ [later])) =
       calls (invocations hasResolve hasReject (c # cs))
   \<and> length (calls (invocations hasResolve hasReject anySeq)) \<le> 1"
proof (intro conjI)
  show "calls (invocations hasResolve hasReject ((err, result) # rest)) =
     (if truthy err then (if hasReject then [RejectCalled err] else [])
      else (if hasResolve then [ResolveCalled result] else []))"
    by (simp add: invocations_Cons completedAction_def createCompletedAction_def)
  show "calls (invocations hasResolve hasReject ((c # cs) @ [later])) =
       calls (invocations hasResolve hasReject (c # cs))"
    by (simp add: invocations_Cons)
  show "length (calls (invocations hasResolve hasReject anySeq)) \<le> 1"
  proof (cases anySeq)
    case Nil
    then show ?thesis by (simp add: invocations_def createCompletedAction_def)
  next
    case (Cons first others)
    then show ?thesis
      by (cases first) (simp add: invocations_Cons completedAction_def createCompletedAction_def)
  qed
qed

theorem completed_action_fires_once_witness:
  "calls (invocations True True [(VStr ''boom'', VUndefined), (VNull, VNum 1)]) =
     [RejectCalled (VStr ''boom'')]
   \<and> calls (invocations True True [(VNull, VNum 1), (VStr ''boom'', VUndefined)]) =
     [ResolveCalled (VNum 1)]"
  using completed_action_fires_once
      [THEN conjunct1, of True True "VStr ''boom''" VUndefined "[(VNull, VNum 1)]"]
    completed_action_fires_once
      [THEN conjunct1, of True True VNull "VNum 1" "[(VStr ''boom'', VUndefined)]"]
  by simp

section \<open>Properties of asBuffer\<close>

text \<open>The encoding that reaches the conversions, from the one that was passed.\<close>

lemma normalizeString_optional:
  "normalizeString P (optional_string enc) =
     Inr (trim (toLowerCase (case enc of None \<Rightarrow> [] | Some s \<Rightarrow> s)))"
  by (cases enc) (simp_all add: normalizeString_def optional_string_def)

lemma orDefault_number:
  "toNumber (orDefault k a) = Some x \<Longrightarrow> orDefault j (orDefault k a) = orDefault k a"
  by (cases a) (simp_all add: orDefault_def)

lemma asBufferInner_chain:
  assumes "deferred_chain n b v"
    and "toNumber (orDefault 0 funcDepth) = Some d"
    and "toNumber (orDefault 63 maxDepth) = Some m"
  shows "asBufferInner P v enc funcDepth maxDepth =
     (if d + int n \<le> m then Resolved (VBuffer b)
      else Rejected (new_Error ''Error''
             (''Maximum depth of '' @ show_numarg (orDefault 63 maxDepth) @ '' reached!'')))"
  using assms
proof (induction n b v arbitrary: enc funcDepth maxDepth d rule: deferred_chain.induct)
  case (chain_end b)
  then show ?case
    by (simp add: asBufferInner.simps [of P "VBuffer b"] normalizeString_optional
          greater_than_def)
next
  case (chain_link n b inner bh)
  have deeper: "toNumber (orDefault 0 (plus_one (orDefault 0 funcDepth))) = Some (d + 1)"
    using chain_link.prems(1) by (simp add: plus_one_def orDefault_def)
  have same_max: "toNumber (orDefault 63 (orDefault 63 maxDepth)) = Some m"
    using chain_link.prems(2) by (simp add: orDefault_number)
  have same_text: "orDefault 63 (orDefault 63 maxDepth) = orDefault 63 maxDepth"
    using chain_link.prems(2) by (rule orDefault_number)
  show ?case
  proof (cases "d > m")
    case True
    then show ?thesis
      using chain_link.prems
      by (simp add: asBufferInner.simps [of P "VFunction _ _"] normalizeString_optional
            greater_than_def)
  next
    case False
    then show ?thesis
      using chain_link.prems chain_link.IH [OF deeper same_max] same_text
      by (simp add: asBufferInner.simps [of P "VFunction _ _"] normalizeString_optional
            greater_than_def)
  qed
qed

text \<open>
  C2. For a chain of \<open>n\<close> deferred values that ends in the buffer \<open>b\<close>, and a
  \<open>maxDepth\<close> that is left out or \<open>NaN\<close> (63 then) or a number \<open>m\<close>: \<open>asBuffer\<close>
  resolves to \<open>b\<close> when \<open>n \<le> m\<close> and otherwise rejects with the error
  \<open>Maximum depth of m reached!\<close>. The rejection is the result of the call: nothing is
  tried again.
\<close>

theorem deferred_chain_depth_limit:
  assumes "deferred_chain n b chain"
    and "((maxDepth = ArgUndefined \<or> maxDepth = ArgNaN) \<and> m = 63) \<or> maxDepth = ArgNum m"
  shows "asBuffer P chain enc maxDepth =
     (if int n \<le> m then Resolved (VBuffer b)
      else Rejected (new_Error ''Error'' (''Maximum depth of '' @ show_int m @ '' reached!'')))"
proof -
  have max: "toNumber (orDefault 63 maxDepth) = Some m" "show_numarg (orDefault 63 maxDepth) = show_int m"
    using assms(2) by (auto simp: orDefault_def)
  have start: "toNumber (orDefault 0 ArgNull) = Some 0"
    by (simp add: orDefault_def)
  show ?thesis
    using asBufferInner_chain [OF assms(1) start max(1), of P enc] max(2)
    by (simp add: asBuffer_def)
qed

theorem deferred_chain_depth_limit_witness:
  "deferred_chain 2 [1, 2]
     (VFunction (\<lambda>enc fd md. Resolved (VFunction (\<lambda>enc fd md. Resolved (VBuffer [1, 2]))
        (function_behaviour ''() => buf''))) (function_behaviour ''() => inner''))
   \<and> asBuffer utf8_platform
     (VFunction (\<lambda>enc fd md. Resolved (VFunction (\<lambda>enc fd md. Resolved (VBuffer [1, 2]))
        (function_behaviour ''() => buf''))) (function_behaviour ''() => inner''))
     None (ArgNum 2) = Resolved (VBuffer [1, 2])
   \<and> asBuffer utf8_platform
     (VFunction (\<lambda>enc fd md. Resolved (VFunction (\<lambda>enc fd md. Resolved (VBuffer [1, 2]))
        (function_behaviour ''() => buf''))) (function_behaviour ''() => inner''))
     None (ArgNum 1) = Rejected (new_Error ''Error'' ''Maximum depth of 1 reached!'')
   \<and> asBuffer utf8_platform
     (VFunction (\<lambda>enc fd md. Resolved (VFunction (\<lambda>enc fd md. Resolved (VBuffer [1, 2]))
        (function_behaviour ''() => buf''))) (function_behaviour ''() => inner''))
     None ArgUndefined = Resolved (VBuffer [1, 2])"
proof -
  have chain: "deferred_chain (Suc (Suc 0)) [1, 2]
     (VFunction (\<lambda>enc fd md. Resolved (VFunction (\<lambda>enc fd md. Resolved (VBuffer [1, 2]))
        (function_behaviour ''() => buf''))) (function_behaviour ''() => inner''))"
    by (intro chain_link chain_end)
  show ?thesis
    using chain
      deferred_chain_depth_limit [OF chain, of "ArgNum 2" 2 utf8_platform None]
      deferred_chain_depth_limit [OF chain, of "ArgNum 1" 1 utf8_platform None]
      deferred_chain_depth_limit [OF chain, of ArgUndefined 63 utf8_platform None]
    by (simp add: numeral_2_eq_2 show_int_def show_nat.simps)
qed

text \<open>
  A \<open>maxDepth\<close> of \<open>null\<close> is not replaced by 63, since \<open>isNaN(null)\<close> is false: it
  counts as 0 in the comparison, and only the buffer itself gets through.
\<close>

lemma deferred_chain_null_maxDepth:
  assumes "deferred_chain n b chain"
  shows "asBuffer P chain enc ArgNull =
     (if n = 0 then Resolved (VBuffer b)
      else Rejected (new_Error ''Error'' ''Maximum depth of null reached!''))"
  using asBufferInner_chain [OF assms, of ArgNull 0 ArgNull 0 P enc]
  by (simp add: asBuffer_def orDefault_def)

text \<open>
  C3. A buffer comes back as it is, whatever the encoding, and so does a nil value:
  the branch is \<open>return val\<close>, no buffer is made. This holds with \<open>maxDepth\<close> left out
  and with any \<open>maxDepth\<close> from 0 on.
\<close>

theorem buffer_and_nil_unchanged:
  "asBuffer P (VBuffer b) enc ArgUndefined = Resolved (VBuffer b)
   \<and> asBuffer P VNull enc ArgUndefined = Resolved VNull
   \<and> asBuffer P VUndefined enc ArgUndefined = Resolved VUndefined
   \<and> asBuffer P (VBuffer b) enc (ArgNum (int k)) = Resolved (VBuffer b)
   \<and> asBuffer P VNull enc (ArgNum (int k)) = Resolved VNull
   \<and> asBuffer P VUndefined enc (ArgNum (int k)) = Resolved VUndefined"
  by (simp add: asBuffer_def asBufferInner.simps normalizeString_optional greater_than_def
        orDefault_def)

theorem buffer_and_nil_unchanged_witness:
  "asBuffer utf8_platform (VBuffer [104, 105]) (Some ''latin1'') ArgUndefined =
     Resolved (VBuffer [104, 105])
   \<and> asBuffer utf8_platform VNull (Some ''latin1'') ArgUndefined = Resolved VNull
   \<and> asBuffer utf8_platform VUndefined None ArgUndefined = Resolved VUndefined"
  using buffer_and_nil_unchanged [of utf8_platform "[104, 105]" "Some ''latin1''" 0]
    buffer_and_nil_unchanged [of utf8_platform "[]" None 0]
  by simp

text \<open>
  The encoding after the first lines of \<open>asBufferInner\<close> and \<open>readAll\<close>:
  \<open>normalizeString\<close> lower-cases and trims it, and a blank one becomes \<open>undefined\<close>.
\<close>

lemma is_space_lower_char: "is_space (lower_char c) = is_space c"
  by (auto simp: is_space_def lower_char_def)

lemma trim_empty_iff: "trim s = [] \<longleftrightarrow> (\<forall>c\<in>set s. is_space c)"
proof -
  have "dropWhile is_space s = [] \<longleftrightarrow> (\<forall>c\<in>set s. is_space c)"
    by (simp add: dropWhile_eq_Nil_conv)
  moreover have "(\<forall>c\<in>set (dropWhile is_space s). is_space c) \<longleftrightarrow> dropWhile is_space s = []"
    by (metis dropWhile_eq_Nil_conv dropWhile_idem)
  ultimately show ?thesis
    by (simp add: trim_def dropWhile_eq_Nil_conv)
qed

lemma effective_encoding_cases:
  "effective_encoding None = None"
  "effective_encoding (Some e) =
     (if (\<forall>c\<in>set e. is_space c) then None else Some (trim (toLowerCase e)))"
proof -
  show "effective_encoding None = None"
    by (simp add: effective_encoding_def blank_to_undefined_def trim_def toLowerCase_def)
  have "trim (toLowerCase e) = [] \<longleftrightarrow> (\<forall>c\<in>set e. is_space c)"
    by (simp add: trim_empty_iff toLowerCase_def is_space_lower_char)
  then show "effective_encoding (Some e) =
     (if (\<forall>c\<in>set e. is_space c) then None else Some (trim (toLowerCase e)))"
    by (simp add: effective_encoding_def blank_to_undefined_def)
qed

lemma asBuffer_value:
  assumes "\<not> isFunction val"
  shows "asBuffer P val enc ArgUndefined = asBufferValue P val (effective_encoding enc)"
  using assms
  by (cases val)
     (simp_all add: asBuffer_def asBufferInner.simps normalizeString_optional greater_than_def
        orDefault_def effective_encoding_def)

text \<open>
  C7, as the code has it. An object that is not a buffer, a function or a readable
  stream, an array or an error as much as a plain object, is serialised with
  \<open>JSON.stringify\<close> and the text encoded by \<open>new Buffer\<close> with the encoding that was asked
  for (none when it was left out or blank). Only a value that is not an object, that is a
  string, a number, a boolean or a symbol, is coerced with \<open>toStringSafe\<close> and encoded.
\<close>

theorem objects_as_json_buffer:
  assumes "json_object val = Some bh"
    and "stringify_result bh = Inr (Some text)"
    and "is_primitive prim"
  shows "asBuffer P val enc ArgUndefined = bufferOf P (Some text) (effective_encoding enc)
   \<and> (\<exists>s. toStringSafe P prim [] = Inr (Some s)
        \<and> asBuffer P prim enc ArgUndefined = bufferOf P (Some s) (effective_encoding enc))"
proof
  have "\<not> isFunction val"
    using assms(1) by (cases val) simp_all
  then show "asBuffer P val enc ArgUndefined = bufferOf P (Some text) (effective_encoding enc)"
    using assms(1,2) by (cases val) (simp_all add: asBuffer_value)
next
  have "\<not> isFunction prim"
    using assms(3) by (cases prim) simp_all
  then show "\<exists>s. toStringSafe P prim [] = Inr (Some s)
        \<and> asBuffer P prim enc ArgUndefined = bufferOf P (Some s) (effective_encoding enc)"
    using assms(3) by (cases prim) (simp_all add: asBuffer_value)
qed

theorem objects_as_json_buffer_witness:
  "json_object (VObject (plain_behaviour ''{\"a\":1}'')) = Some (plain_behaviour ''{\"a\":1}'')
   \<and> stringify_result (plain_behaviour ''{\"a\":1}'') = Inr (Some ''{\"a\":1}'')
   \<and> is_primitive (VNum 12)
   \<and> asBuffer utf8_platform (VObject (plain_behaviour ''{\"a\":1}'')) None ArgUndefined =
       Resolved (VBuffer [123, 34, 97, 34, 58, 49, 125])
   \<and> asBuffer utf8_platform (VNum 12) None ArgUndefined = Resolved (VBuffer [49, 50])"
proof -
  have obj: "json_object (VObject (plain_behaviour ''{\"a\":1}'')) = Some (plain_behaviour ''{\"a\":1}'')"
    by simp
  have json: "stringify_result (plain_behaviour ''{\"a\":1}'') = Inr (Some ''{\"a\":1}'')"
    by (simp add: plain_behaviour_def)
  have prim: "is_primitive (VNum 12)"
    by simp
  show ?thesis
    using obj json prim objects_as_json_buffer [OF obj json prim, of utf8_platform None]
    by (simp add: effective_encoding_cases bufferOf_def utf8_platform_def utf8_bytes_def
          show_int_def show_nat.simps)
qed

text \<open>
  The claim C7 as written fails on an array: \<open>[1, 2]\<close> is an object for \<open>_.isObject\<close>, so
  the buffer holds its JSON text \<open>[1,2]\<close>, not the text \<open>1,2\<close> that \<open>toStringSafe\<close> gives.
\<close>

theorem array_is_serialised_as_json:
  "asBuffer utf8_platform (VArray [VNum 1, VNum 2] (array_behaviour ''1,2'' ''[1,2]'')) None
     ArgUndefined = Resolved (VBuffer [91, 49, 44, 50, 93])
   \<and> toStringSafe utf8_platform (VArray [VNum 1, VNum 2] (array_behaviour ''1,2'' ''[1,2]'')) [] =
       Inr (Some ''1,2'')
   \<and> bufferOf utf8_platform (Some ''1,2'') None = Resolved (VBuffer [49, 44, 50])
   \<and> asBuffer utf8_platform (VArray [VNum 1, VNum 2] (array_behaviour ''1,2'' ''[1,2]'')) None
     ArgUndefined \<noteq> bufferOf utf8_platform (Some ''1,2'') None"
  by (simp add: asBuffer_value effective_encoding_cases bufferOf_def utf8_platform_def
        utf8_bytes_def array_behaviour_def convertObject_def tryConvert_def)

text \<open>
  C8, as the code has it. An encoding that is left out, empty or made of white space
  only means the default of the platform: \<open>new Buffer\<close> is called with \<open>undefined\<close>. Any
  other encoding is lower-cased and trimmed by \<open>normalizeString\<close> and then handed to
  \<open>new Buffer\<close> without a check, for a string as for the JSON text of an object, so a
  name the constructor does not know is refused by the constructor: the result of
  \<open>asBuffer\<close> is whatever \<open>new Buffer\<close> returns or throws.
\<close>

theorem encoding_is_normalised:
  "asBuffer P (VStr s) enc ArgUndefined = bufferOf P (Some s) (effective_encoding enc)
   \<and> asBuffer P (VObject bh) enc ArgUndefined =
       (case stringify_result bh of
          Inl e \<Rightarrow> Rejected e
        | Inr str \<Rightarrow> bufferOf P str (effective_encoding enc))
   \<and> effective_encoding None = None
   \<and> effective_encoding (Some e) =
       (if (\<forall>c\<in>set e. is_space c) then None else Some (trim (toLowerCase e)))"
  by (simp add: asBuffer_value effective_encoding_cases)

theorem encoding_is_normalised_witness:
  "asBuffer utf8_platform (VStr ''x'') (Some '' UTF-8 '') ArgUndefined = Resolved (VBuffer [120])
   \<and> asBuffer utf8_platform (VStr ''x'') (Some ''  '') ArgUndefined = Resolved (VBuffer [120])
   \<and> asBuffer utf8_platform (VStr ''x'') (Some ''utf9'') ArgUndefined =
       Rejected (new_Error ''TypeError'' ''Unknown encoding: utf9'')
   \<and> effective_encoding (Some '' UTF-8 '') = Some ''utf-8''
   \<and> effective_encoding (Some ''  '') = None"
  using encoding_is_normalised [of utf8_platform "''x''" "Some '' UTF-8 ''" _ "'' UTF-8 ''"]
    encoding_is_normalised [of utf8_platform "''x''" "Some ''  ''" _ "''  ''"]
    encoding_is_normalised [of utf8_platform "''x''" "Some ''utf9''" _ "''utf9''"]
  by (simp add: bufferOf_def utf8_platform_def utf8_bytes_def trim_def toLowerCase_def
        lower_char_def is_space_def char_of_eq_iff)

text \<open>
  The claim C8 as written fails: the encoding is not handed on as it was passed. With
  \<open>' utf8 '\<close> the constructor is called with \<open>'utf8'\<close> and makes the buffer, where the
  same constructor refuses the name as it was passed; \<open>'UTF8'\<close> arrives as \<open>'utf8'\<close>.
\<close>

theorem encoding_not_verbatim:
  "asBuffer utf8_platform (VStr ''x'') (Some '' utf8 '') ArgUndefined = Resolved (VBuffer [120])
   \<and> bufferOf utf8_platform (Some ''x'') (Some '' utf8 '') =
       Rejected (new_Error ''TypeError'' ''Unknown encoding:  utf8 '')
   \<and> effective_encoding (Some ''UTF8'') = Some ''utf8''"
  by (simp add: asBuffer_value effective_encoding_def blank_to_undefined_def bufferOf_def
        utf8_platform_def utf8_bytes_def trim_def toLowerCase_def lower_char_def is_space_def
        char_of_eq_iff)

section \<open>Properties of readAll\<close>

lemma readAll_runs:
  "readAll P stream enc = Inr (readAll_run P stream (effective_encoding enc))"
  by (simp add: readAll_def normalizeString_optional effective_encoding_def)

text \<open>While the stream delivers data that the constructor accepts, only \<open>buff\<close> changes.\<close>

lemma data_events:
  assumes "\<forall>c\<in>set chunks. encodable P enc c"
  shows "foldl (emit P enc) (readAll_listening\<lparr>buff := VBuffer bs\<rparr>) (map Data chunks) =
     readAll_listening\<lparr>buff := VBuffer (bs @ concat (map (chunk_bytes P enc) chunks))\<rparr>"
  using assms
proof (induction chunks arbitrary: bs)
  case Nil
  then show ?case by simp
next
  case (Cons c chunks)
  have step: "emit P enc (readAll_listening\<lparr>buff := VBuffer bs\<rparr>) (Data c) =
      readAll_listening\<lparr>buff := VBuffer (bs @ chunk_bytes P enc c)\<rparr>"
  proof (cases c)
    case (Text s)
    then show ?thesis
      using Cons.prems
      by (auto simp: readAll_listening_def readAll_start_def encodable_def chunk_bytes_def
            appendChunk_def Buffer_concat_def split: sum.splits)
  next
    case (Bytes b)
    then show ?thesis
      by (simp add: readAll_listening_def readAll_start_def chunk_bytes_def
            appendChunk_def Buffer_concat_def)
  qed
  show ?case
    using Cons.prems Cons.IH [of "bs @ chunk_bytes P enc c"]
    by (simp add: step del: emit.simps)
qed

text \<open>Once its listeners are off the stream, no event changes the state of the call.\<close>

lemma detached_is_inert:
  "attached st = [] \<Longrightarrow> foldl (emit P enc) st evs = st"
proof (induction evs)
  case Nil
  then show ?case by simp
next
  case (Cons ev evs)
  then show ?case by (cases ev) simp_all
qed

lemma end_event:
  "emit P enc (readAll_listening\<lparr>buff := VBuffer bs\<rparr>) End =
     \<lparr>completedInvoked = True, calls = [ResolveCalled (VBuffer bs)], buff = VBuffer bs,
      attached = [], removals = [DataListener, EndListener, ErrorListener]\<rparr>"
  by (simp add: readAll_listening_def readAll_start_def endListener_def readAll_COMPLETED_def
        tryRemoveListener_def)

lemma error_event:
  "truthy err \<Longrightarrow>
   emit P enc (readAll_listening\<lparr>buff := VBuffer bs\<rparr>) (Failure err) =
     \<lparr>completedInvoked = True, calls = [RejectCalled err], buff = VBuffer bs,
      attached = [], removals = [DataListener, EndListener, ErrorListener]\<rparr>"
  by (simp add: readAll_listening_def readAll_start_def errorListener_def readAll_COMPLETED_def
        tryRemoveListener_def)

lemma listening_buff: "readAll_listening\<lparr>buff := VBuffer []\<rparr> = readAll_listening"
  by (simp add: readAll_listening_def)

text \<open>
  C4. For a stream that emits chunks and then \<open>end\<close>, where the constructor accepts
  the text chunks in the encoding asked for: \<open>resolve\<close> is called once, with the bytes of
  the chunks in the order of delivery (an empty chunk adds nothing, a text chunk adds
  what \<open>new Buffer(chunk, enc)\<close> makes of it), \<open>reject\<close> is never called, each of the three
  listeners is removed and none is attached at the end, whatever the stream emits after
  \<open>end\<close>.
\<close>

theorem readAll_concatenates_chunks:
  assumes "\<forall>c\<in>set chunks. encodable P (effective_encoding enc) c"
  shows "readAll P (VReadable (map Data chunks @ End # later) bh) enc =
       Inr \<lparr>completedInvoked = True,
            calls = [ResolveCalled
              (VBuffer (concat (map (chunk_bytes P (effective_encoding enc)) chunks)))],
            buff = VBuffer (concat (map (chunk_bytes P (effective_encoding enc)) chunks)),
            attached = [],
            removals = [DataListener, EndListener, ErrorListener]\<rparr>
   \<and> readAll_promise P (VReadable (map Data chunks @ End # later) bh) enc =
       Resolved (VBuffer (concat (map (chunk_bytes P (effective_encoding enc)) chunks)))"
proof -
  have "readAll_run P (VReadable (map Data chunks @ End # later) bh) (effective_encoding enc) =
       \<lparr>completedInvoked = True,
            calls = [ResolveCalled
              (VBuffer (concat (map (chunk_bytes P (effective_encoding enc)) chunks)))],
            buff = VBuffer (concat (map (chunk_bytes P (effective_encoding enc)) chunks)),
            attached = [],
            removals = [DataListener, EndListener, ErrorListener]\<rparr>"
    using data_events [OF assms, of "[]"]
    by (simp add: listening_buff end_event detached_is_inert del: emit.simps)
  then show ?thesis
    by (simp add: readAll_promise_def readAll_runs)
qed

theorem readAll_concatenates_chunks_witness:
  "encodable utf8_platform None (Text ''ab'')
   \<and> encodable utf8_platform None (Text ''cd'')
   \<and> encodable utf8_platform None (Text ''ef'')
   \<and> readAll utf8_platform
        (VReadable [Data (Text ''ab''), Data (Text ''cd''), Data (Text ''ef''), End]
           (plain_behaviour ''{}'')) None =
       Inr \<lparr>completedInvoked = True,
            calls = [ResolveCalled (VBuffer [97, 98, 99, 100, 101, 102])],
            buff = VBuffer [97, 98, 99, 100, 101, 102],
            attached = [],
            removals = [DataListener, EndListener, ErrorListener]\<rparr>
   \<and> bufferOf utf8_platform (Some ''abcdef'') None = Resolved (VBuffer [97, 98, 99, 100, 101, 102])"
proof -
  have enc: "\<forall>c\<in>set [Text ''ab'', Text ''cd'', Text ''ef'']. encodable utf8_platform (effective_encoding None) c"
    by (simp add: encodable_def utf8_platform_def effective_encoding_cases)
  show ?thesis
    using enc readAll_concatenates_chunks [OF enc, of "[]" "plain_behaviour ''{}''"]
    by (simp add: effective_encoding_cases chunk_bytes_def bufferOf_def utf8_platform_def
          utf8_bytes_def)
qed

text \<open>
  C5. For a stream that emits an \<open>error\<close> event with an error (a truthy value) after
  chunks the constructor accepts and before any \<open>end\<close>: \<open>reject\<close> is called once with
  that very value, \<open>resolve\<close> is never called, and each of the three listeners is removed
  once, whatever the stream emits afterwards.
\<close>

theorem readAll_rejects_with_stream_error:
  assumes "\<forall>c\<in>set chunks. encodable P (effective_encoding enc) c"
    and "truthy err"
  shows "readAll P (VReadable (map Data chunks @ Failure err # later) bh) enc =
       Inr \<lparr>completedInvoked = True,
            calls = [RejectCalled err],
            buff = VBuffer (concat (map (chunk_bytes P (effective_encoding enc)) chunks)),
            attached = [],
            removals = [DataListener, EndListener, ErrorListener]\<rparr>
   \<and> readAll_promise P (VReadable (map Data chunks @ Failure err # later) bh) enc = Rejected err"
proof -
  have "readAll_run P (VReadable (map Data chunks @ Failure err # later) bh) (effective_encoding enc) =
       \<lparr>completedInvoked = True,
            calls = [RejectCalled err],
            buff = VBuffer (concat (map (chunk_bytes P (effective_encoding enc)) chunks)),
            attached = [],
            removals = [DataListener, EndListener, ErrorListener]\<rparr>"
    using data_events [OF assms(1), of "[]"] assms(2)
    by (simp add: listening_buff error_event detached_is_inert del: emit.simps)
  then show ?thesis
    by (simp add: readAll_promise_def readAll_runs)
qed

theorem readAll_rejects_with_stream_error_witness:
  "encodable utf8_platform None (Text ''ab'')
   \<and> truthy (new_Error ''Error'' ''socket hang up'')
   \<and> readAll utf8_platform
        (VReadable [Data (Text ''ab''), Failure (new_Error ''Error'' ''socket hang up''),
                    Data (Text ''cd''), End] (plain_behaviour ''{}'')) None =
       Inr \<lparr>completedInvoked = True,
            calls = [RejectCalled (new_Error ''Error'' ''socket hang up'')],
            buff = VBuffer [97, 98],
            attached = [],
            removals = [DataListener, EndListener, ErrorListener]\<rparr>
   \<and> readAll_promise utf8_platform
        (VReadable [Data (Text ''ab''), Failure (new_Error ''Error'' ''socket hang up''),
                    Data (Text ''cd''), End] (plain_behaviour ''{}'')) None =
       Rejected (new_Error ''Error'' ''socket hang up'')"
proof -
  have enc: "\<forall>c\<in>set [Text ''ab'']. encodable utf8_platform (effective_encoding None) c"
    by (simp add: encodable_def utf8_platform_def effective_encoding_cases)
  have err: "truthy (new_Error ''Error'' ''socket hang up'')"
    by (simp add: new_Error_def)
  show ?thesis
    using enc err
      readAll_rejects_with_stream_error [OF enc err, of "[Data (Text ''cd''), End]" "plain_behaviour ''{}''"]
    by (simp add: effective_encoding_cases chunk_bytes_def utf8_platform_def utf8_bytes_def)
qed

section \<open>Properties of toStringSafe\<close>

text \<open>
  What \<open>toStringSafe\<close> returns when nothing throws: the message of an error, the answer
  of the \<open>toString\<close> function of an object that has one, the JSON text of an object that
  has none.
\<close>

lemma toStringSafe_conversions:
  "toStringSafe P (VError (Inr msg) bh) d = Inr (Some msg)"
  "toStringSafe P (VObject (Behaviour (Some (Inr s)) json c)) d = Inr (Some s)"
  "toStringSafe P (VObject (Behaviour None (Inr (Some text)) c)) d = Inr (Some text)"
  by (simp_all add: convertObject_def tryConvert_def)

text \<open>
  An object literal inherits \<open>Object.prototype.toString\<close>, which is a function: it is
  asked, and the JSON branch is left to objects without any \<open>toString\<close> function.
\<close>

lemma toStringSafe_plain_object:
  "toStringSafe P (VObject (plain_behaviour json)) d = Inr (Some ''[object Object]'')"
  by (simp add: plain_behaviour_def convertObject_def tryConvert_def)

text \<open>After a swallowed exception the result is that of \<open>'' + val\<close>, a string or a throw.\<close>

lemma toStringSafe_fallback:
  "toStringSafe P (VObject (Behaviour (Some (Inl e)) json c)) d = map_sum id Some c"
  "toStringSafe P (VObject (Behaviour None (Inl e) c)) d = map_sum id Some c"
  by (cases c; simp add: convertObject_def tryConvert_def)+

text \<open>
  C9 does not hold of the code. The last line of \<open>toStringSafe\<close>, \<open>return '' + val\<close>, is
  outside the \<open>try\<close>: for an object whose \<open>toString\<close> throws, the call inside the
  \<open>try\<close> is swallowed and the concatenation calls \<open>toString\<close> again and throws; for an
  object without a \<open>toString\<close> function that \<open>JSON.stringify\<close> refuses, the
  concatenation throws as well. And when \<open>JSON.stringify\<close> returns \<open>undefined\<close>, so does
  \<open>toStringSafe\<close>, which is no string.
\<close>

theorem toStringSafe_throws:
  "toStringSafe P (VObject (Behaviour (Some (Inl thrown)) json (Inl thrown))) defaultVal =
     Inl thrown
   \<and> toStringSafe P (VObject (Behaviour None (Inl circular) (Inl thrown))) defaultVal =
     Inl thrown
   \<and> toStringSafe P (VObject (Behaviour None (Inr None) c)) defaultVal = Inr None"
  by (simp add: convertObject_def tryConvert_def)

theorem toStringSafe_throws_witness:
  "toStringSafe utf8_platform
     (VObject (Behaviour (Some (Inl (new_Error ''Error'' ''boom''))) (Inr (Some ''{}''))
        (Inl (new_Error ''Error'' ''boom'')))) [] =
     Inl (new_Error ''Error'' ''boom'')"
  using toStringSafe_throws [of utf8_platform "new_Error ''Error'' ''boom''" "Inr (Some ''{}'')" "[]"]
  by simp

section \<open>Properties of execFile\<close>

lemma asArray_keeps_all:
  "asArray (VArray xs bh) (VBool False) = xs"
  "asArray VUndefined (VBool False) = [VUndefined]"
  "asArray VNull (VBool False) = [VNull]"
  by (simp_all add: asArray_def)

lemma mapToStringSafe_elements:
  "mapToStringSafe P xs = Inr as \<Longrightarrow>
   length as = length xs \<and> (\<forall>i<length xs. toStringSafe P (xs ! i) [] = Inr (as ! i))"
proof (induction xs arbitrary: as)
  case Nil
  then show ?case by simp
next
  case (Cons x xs)
  then show ?case
    by (auto split: sum.splits simp: nth_Cons split: nat.splits)
qed

text \<open>
  With an array of arguments the command is launched with the coercion of each
  element, in the same order and number.
\<close>

lemma execFile_coerces_arguments:
  assumes "toStringSafe P command [] = Inr cmd"
    and "mapToStringSafe P xs = Inr as"
  shows "map_option (\<lambda>(c, a, r). (c, a))
           (launched (execFile P cp penv \<sigma> command (VArray xs bh) opts)) = Some (cmd, as)
   \<and> length as = length xs
   \<and> (\<forall>i<length xs. toStringSafe P (xs ! i) [] = Inr (as ! i))"
  using assms mapToStringSafe_elements [OF assms(2)]
  by (simp add: execFile_def asArray_keeps_all split: prod.splits)

text \<open>
  C6 does not hold of the code when \<open>args\<close> is left out or is \<open>null\<close>: \<open>asArray\<close> wraps
  the nil value into a one-element array, the filter keeps it since \<open>removeEmpty\<close> is
  \<open>false\<close>, and \<open>toStringSafe\<close> turns it into the empty string. The command is launched
  with one argument, the empty string, not with an empty list.
\<close>

theorem execFile_nil_args_launch_empty_string:
  "map_option (\<lambda>(c, a, r). (c, a))
     (launched (execFile P cp penv \<sigma> (VStr cmd) VUndefined opts)) = Some (Some cmd, [Some []])
   \<and> map_option (\<lambda>(c, a, r). (c, a))
     (launched (execFile P cp penv \<sigma> (VStr cmd) VNull opts)) = Some (Some cmd, [Some []])"
  by (simp add: execFile_def asArray_keeps_all split: prod.splits)

theorem execFile_nil_args_launch_empty_string_witness:
  "map_option (\<lambda>(c, a, r). (c, a))
     (launched (execFile utf8_platform (\<lambda>c a f. NoCallback VNull) (VObject (plain_behaviour ''{}''))
        \<lparr>cells = Map.empty, fresh = 0\<rparr> (VStr ''ls'') VUndefined None)) =
     Some (Some ''ls'', [Some []])"
  using execFile_nil_args_launch_empty_string
    [of utf8_platform "\<lambda>c a f. NoCallback VNull" "VObject (plain_behaviour ''{}'')"
        "\<lparr>cells = Map.empty, fresh = 0\<rparr>" "''ls''" None]
  by simp

text \<open>
  C10. When the caller passes an options object whose \<open>env\<close> is nil and the coercion of
  the command and of the arguments returns, \<open>execFile\<close> assigns \<open>process.env\<close> to the
  field \<open>env\<close> of that very object before it launches the command: the child process
  is launched with the reference the caller passed and sees the fields of that object
  with \<open>env\<close> set, and the promise is the one that launch settles. After the call the
  store holds, at that reference, the same fields with \<open>env\<close> set; every other field of
  the object and every other object is as before, and no object is allocated.
\<close>

theorem execFile_sets_env_in_place:
  assumes "cells \<sigma> r = Some f"
    and "isNil (case f ''env'' of None \<Rightarrow> VUndefined | Some v \<Rightarrow> v)"
    and "toStringSafe P command [] = Inr cmd"
    and "mapToStringSafe P (asArray args (VBool False)) = Inr as"
  shows "store_after (execFile P cp penv \<sigma> command args (Some r)) =
           \<sigma>\<lparr>cells := (cells \<sigma>)(r \<mapsto> f(''env'' \<mapsto> penv))\<rparr>
   \<and> launched (execFile P cp penv \<sigma> command args (Some r)) = Some (cmd, as, r)
   \<and> returned (execFile P cp penv \<sigma> command args (Some r)) =
         settled (calls (execFile_run P (cp cmd as (f(''env'' \<mapsto> penv)))))
   \<and> get_field (store_after (execFile P cp penv \<sigma> command args (Some r))) r ''env'' = penv
   \<and> (\<forall>name. name \<noteq> ''env'' \<longrightarrow>
         get_field (store_after (execFile P cp penv \<sigma> command args (Some r))) r name =
         get_field \<sigma> r name)
   \<and> (\<forall>r'. r' \<noteq> r \<longrightarrow>
         cells (store_after (execFile P cp penv \<sigma> command args (Some r))) r' = cells \<sigma> r')"
  using assms
  by (simp add: execFile_def optsOrNew_def defaultEnv_def get_field_def set_field_def
        fields_of_def)

text \<open>
  The child process of the example fails to start when the options it is given have no
  \<open>env\<close>, and otherwise prints \<open>hello\<close>: the promise resolves, so \<open>env\<close> was set when
  the command was launched.
\<close>

theorem execFile_sets_env_in_place_witness:
  "cells \<lparr>cells = [0 \<mapsto> [''cwd'' \<mapsto> VStr ''/tmp'']], fresh = 1\<rparr> 0 = Some [''cwd'' \<mapsto> VStr ''/tmp'']
   \<and> isNil (case [''cwd'' \<mapsto> VStr ''/tmp''] ''env'' of None \<Rightarrow> VUndefined | Some v \<Rightarrow> v)
   \<and> toStringSafe utf8_platform (VStr ''echo'') [] = Inr (Some ''echo'')
   \<and> mapToStringSafe utf8_platform (asArray (VArray [VStr ''hello''] (array_behaviour ''hello'' ''[\"hello\"]'')) (VBool False)) = Inr [Some ''hello'']
   \<and> get_field (store_after (execFile utf8_platform
         (\<lambda>c a f. case f ''env'' of
            None \<Rightarrow> SpawnThrows (VStr ''no env'')
          | Some v \<Rightarrow> Callback VNull VNull (VStr ''hello'') (VStr []))
         (VObject (plain_behaviour ''{\"PATH\":\"/bin\"}''))
         \<lparr>cells = [0 \<mapsto> [''cwd'' \<mapsto> VStr ''/tmp'']], fresh = 1\<rparr>
         (VStr ''echo'') (VArray [VStr ''hello''] (array_behaviour ''hello'' ''[\"hello\"]'')) (Some 0)))
       0 ''env'' = VObject (plain_behaviour ''{\"PATH\":\"/bin\"}'')
   \<and> get_field (store_after (execFile utf8_platform
         (\<lambda>c a f. case f ''env'' of
            None \<Rightarrow> SpawnThrows (VStr ''no env'')
          | Some v \<Rightarrow> Callback VNull VNull (VStr ''hello'') (VStr []))
         (VObject (plain_behaviour ''{\"PATH\":\"/bin\"}''))
         \<lparr>cells = [0 \<mapsto> [''cwd'' \<mapsto> VStr ''/tmp'']], fresh = 1\<rparr>
         (VStr ''echo'') (VArray [VStr ''hello''] (array_behaviour ''hello'' ''[\"hello\"]'')) (Some 0)))
       0 ''cwd'' = VStr ''/tmp''
   \<and> returned (execFile utf8_platform
         (\<lambda>c a f. case f ''env'' of
            None \<Rightarrow> SpawnThrows (VStr ''no env'')
          | Some v \<Rightarrow> Callback VNull VNull (VStr ''hello'') (VStr []))
         (VObject (plain_behaviour ''{\"PATH\":\"/bin\"}''))
         \<lparr>cells = [0 \<mapsto> [''cwd'' \<mapsto> VStr ''/tmp'']], fresh = 1\<rparr>
         (VStr ''echo'') (VArray [VStr ''hello''] (array_behaviour ''hello'' ''[\"hello\"]'')) (Some 0)) =
       Resolved \<lparr>stdErr = VBuffer [], stdOut = VBuffer [104, 101, 108, 108, 111], process = VNull\<rparr>"
proof -
  have obj: "cells \<lparr>cells = [0 \<mapsto> [''cwd'' \<mapsto> VStr ''/tmp'']], fresh = 1\<rparr> 0 = Some [''cwd'' \<mapsto> VStr ''/tmp'']"
    by simp
  have nil: "isNil (case [''cwd'' \<mapsto> VStr ''/tmp''] ''env'' of None \<Rightarrow> VUndefined | Some v \<Rightarrow> v)"
    by simp
  have cmd: "toStringSafe utf8_platform (VStr ''echo'') [] = Inr (Some ''echo'')"
    by simp
  have args: "mapToStringSafe utf8_platform (asArray (VArray [VStr ''hello''] (array_behaviour ''hello'' ''[\"hello\"]'')) (VBool False)) = Inr [Some ''hello'']"
    by (simp add: asArray_keeps_all)
  have utf8: "effective_encoding (Some ''utf8'') = Some ''utf8''"
    by (simp add: effective_encoding_def blank_to_undefined_def trim_def toLowerCase_def
          lower_char_def is_space_def)
  have out: "asBuffer utf8_platform (VStr ''hello'') (Some ''utf8'') ArgUndefined =
      Resolved (VBuffer [104, 101, 108, 108, 111])"
    by (simp add: asBuffer_value utf8 bufferOf_def utf8_platform_def utf8_bytes_def
          toLowerCase_def lower_char_def)
  have err: "asBuffer utf8_platform (VStr []) (Some ''utf8'') ArgUndefined = Resolved (VBuffer [])"
    by (simp add: asBuffer_value utf8 bufferOf_def utf8_platform_def utf8_bytes_def
          toLowerCase_def lower_char_def)
  show ?thesis
    using obj nil cmd args
      execFile_sets_env_in_place [OF obj nil cmd args,
        of "\<lambda>c a f. case f ''env'' of
            None \<Rightarrow> SpawnThrows (VStr ''no env'')
          | Some v \<Rightarrow> Callback VNull VNull (VStr ''hello'') (VStr [])"
           "VObject (plain_behaviour ''{\"PATH\":\"/bin\"}'')"]
    by (simp add: get_field_def fields_of_def out err execFile_COMPLETED_def
          execFile_RESULT_def createCompletedAction_def)
qed

end
